theory Spec2Isabelle
  imports Main
begin

section \<open>Data model of think-tool.go\<close>

text \<open>
  Go strings are byte sequences and \<open>len\<close> counts bytes; a HOL \<open>string\<close> is a list of
  8-bit \<open>char\<close>s, so \<open>length\<close> is Go's \<open>len\<close> and \<open>take 50\<close> is the slice \<open>[:50]\<close>.
\<close>

record ThoughtItem =
  Thought :: string
  CreatedAt :: string

text \<open>
  The tool's state. Every method locks \<open>mu\<close> on entry and releases it by \<open>defer\<close> on
  each return, so between two calls of a sequential run the mutex is free; the state
  that a call hands to the next one is the slice \<open>thoughts\<close>.
\<close>

record ThinkTool =
  thoughts :: "ThoughtItem list"

text \<open>The value of \<open>&ThinkTool{}\<close> in \<open>main\<close>: no thoughts.\<close>

definition ThinkTool_zero :: ThinkTool where
  "ThinkTool_zero = \<lparr>thoughts = []\<rparr>"

text \<open>An \<open>error\<close> made by \<open>errors.New\<close> carries its message.\<close>

datatype error = errors_New string

text \<open>
  A handler returns \<open>(nil, err)\<close> or \<open>(&CallToolResultFor{Content: [...]}, nil)\<close>:
  a sum whose right side is the content list of the result.
\<close>

datatype Content = TextContent string

type_synonym CallToolResult = "error + Content list"

section \<open>Operations\<close>

definition tidyThought :: "string \<Rightarrow> string" where
  "tidyThought thought =
     (if length thought > 50 then take 50 thought @ ''...'' else thought)"

text \<open>
  \<open>Think\<close>: the argument \<open>now\<close> is the value of \<open>time.Now().Format(time.RFC3339)\<close>
  at the call, \<open>thought\<close> is \<open>params.Arguments.Thought\<close>.
\<close>

definition Think :: "ThinkTool \<Rightarrow> string \<Rightarrow> string \<Rightarrow> CallToolResult \<times> ThinkTool" where
  "Think t now thought =
     (if length thought = 0 then (Inl (errors_New ''no thoughts provided''), t)
      else (Inr [TextContent (''Thought: '' @ tidyThought thought)],
            t\<lparr>thoughts := thoughts t @ [\<lparr>Thought = thought, CreatedAt = now\<rparr>]\<rparr>))"

text \<open>The verb \<open>%d\<close> of \<open>fmt.Sprintf\<close> on a non-negative integer: its decimal digits.\<close>

fun fmt_d :: "nat \<Rightarrow> string" where
  "fmt_d n =
     (if n < 10 then [char_of (48 + n)]
      else fmt_d (n div 10) @ [char_of (48 + n mod 10)])"

declare fmt_d.simps [simp del]

text \<open>\<open>fmt.Sprintf("Thought #%d at %s:\n%s\n", n, thought.CreatedAt, thought.Thought)\<close>\<close>

definition Sprintf_thought :: "nat \<Rightarrow> ThoughtItem \<Rightarrow> string" where
  "Sprintf_thought n thought =
     ''Thought #'' @ fmt_d n @ '' at '' @ CreatedAt thought @ '':'' @ [CHR 0x0A]
       @ Thought thought @ [CHR 0x0A]"

text \<open>
  The loop \<open>for i, thought := range t.thoughts\<close> of \<open>GetThoughts\<close>: \<open>i\<close> is the index
  reached, the third argument the slice \<open>thoughts\<close> built so far.
\<close>

fun range_thoughts :: "nat \<Rightarrow> ThoughtItem list \<Rightarrow> string list \<Rightarrow> string list" where
  "range_thoughts i [] acc = acc"
| "range_thoughts i (thought # rest) acc =
     range_thoughts (i + 1) rest (acc @ [Sprintf_thought (i + 1) thought])"

text \<open>\<open>strings.Join(elems, sep)\<close>\<close>

fun strings_Join :: "string list \<Rightarrow> string \<Rightarrow> string" where
  "strings_Join [] sep = []"
| "strings_Join [e] sep = e"
| "strings_Join (e # es) sep = e @ sep @ strings_Join es sep"

definition GetThoughts :: "ThinkTool \<Rightarrow> CallToolResult \<times> ThinkTool" where
  "GetThoughts t =
     (if length (thoughts t) = 0
      then (Inl (errors_New
              ''no thoughts recorded. Use the think tool to record a thought first.''), t)
      else (Inr [TextContent (strings_Join (range_thoughts 0 (thoughts t) []) [CHR 0x0A])],
            t))"

definition ClearThoughts :: "ThinkTool \<Rightarrow> CallToolResult \<times> ThinkTool" where
  "ClearThoughts t = (Inr [TextContent ''Thoughts cleared.''], t\<lparr>thoughts := []\<rparr>)"

text \<open>
  A run of \<open>Think\<close> calls, one after the other, each given as the pair of its timestamp
  and its thought; the state after the last call.
\<close>

fun Think_all :: "ThinkTool \<Rightarrow> (string \<times> string) list \<Rightarrow> ThinkTool" where
  "Think_all t [] = t"
| "Think_all t ((now, thought) # calls) = Think_all (snd (Think t now thought)) calls"

section \<open>UTF-8 and characters\<close>

text \<open>
  The source never decodes its strings; the notions below are those of the Unicode
  standard (and of Go's package \<open>unicode/utf8\<close>), needed to say what a byte slice does
  to the characters of a thought.
\<close>

text \<open>A continuation byte \<open>10xxxxxx\<close>.\<close>

definition utf8_cont :: "char \<Rightarrow> bool" where
  "utf8_cont c = (0x80 \<le> (of_char c :: nat) \<and> (of_char c :: nat) \<le> 0xBF)"

text \<open>
  What a first byte announces: the ranges of the bytes that must follow it, or \<open>None\<close>
  for a byte that cannot start a character (Unicode, table 3-7).
\<close>

definition utf8_lead :: "char \<Rightarrow> (nat \<times> nat) list option" where
  "utf8_lead c =
     (let b = (of_char c :: nat) in
      if b < 0x80 then Some []
      else if 0xC2 \<le> b \<and> b \<le> 0xDF then Some [(0x80, 0xBF)]
      else if b = 0xE0 then Some [(0xA0, 0xBF), (0x80, 0xBF)]
      else if 0xE1 \<le> b \<and> b \<le> 0xEC then Some [(0x80, 0xBF), (0x80, 0xBF)]
      else if b = 0xED then Some [(0x80, 0x9F), (0x80, 0xBF)]
      else if 0xEE \<le> b \<and> b \<le> 0xEF then Some [(0x80, 0xBF), (0x80, 0xBF)]
      else if b = 0xF0 then Some [(0x90, 0xBF), (0x80, 0xBF), (0x80, 0xBF)]
      else if 0xF1 \<le> b \<and> b \<le> 0xF3 then Some [(0x80, 0xBF), (0x80, 0xBF), (0x80, 0xBF)]
      else if b = 0xF4 then Some [(0x80, 0x8F), (0x80, 0xBF), (0x80, 0xBF)]
      else None)"

text \<open>
  Scanning a byte string, with the ranges of the bytes still owed to the character
  being read; the string is well formed when it ends with nothing owed.
\<close>

fun utf8_scan :: "(nat \<times> nat) list \<Rightarrow> string \<Rightarrow> bool" where
  "utf8_scan pending [] = (pending = [])"
| "utf8_scan [] (c # cs) =
     (case utf8_lead c of None \<Rightarrow> False | Some p \<Rightarrow> utf8_scan p cs)"
| "utf8_scan ((lo, hi) # p) (c # cs) =
     (lo \<le> (of_char c :: nat) \<and> (of_char c :: nat) \<le> hi \<and> utf8_scan p cs)"

definition utf8_ValidString :: "string \<Rightarrow> bool" where
  "utf8_ValidString s = utf8_scan [] s"

text \<open>
  The number of characters of a well-formed string: every character has exactly one
  byte that is not a continuation byte, its first.
\<close>

definition utf8_RuneCount :: "string \<Rightarrow> nat" where
  "utf8_RuneCount s = length (filter (\<lambda>c. \<not> utf8_cont c) s)"

text \<open>The pending ranges admit continuation bytes only.\<close>

definition cont_ranges :: "(nat \<times> nat) list \<Rightarrow> bool" where
  "cont_ranges p = list_all (\<lambda>(lo, hi). 0x80 \<le> lo \<and> hi \<le> 0xBF) p"

section \<open>Decimal numerals\<close>

text \<open>
  What it means for a string to be the decimal numeral of a number, said without the
  code: its characters are digits, they denote the number, and it has no leading zero.
\<close>

definition is_digit :: "char \<Rightarrow> bool" where
  "is_digit c = (48 \<le> (of_char c :: nat) \<and> (of_char c :: nat) \<le> 57)"

definition decimal_value :: "string \<Rightarrow> nat" where
  "decimal_value s = foldl (\<lambda>v c. 10 * v + ((of_char c :: nat) - 48)) 0 s"

definition decimal_of :: "nat \<Rightarrow> string \<Rightarrow> bool" where
  "decimal_of n s =
     (s \<noteq> [] \<and> list_all is_digit s \<and> (s = ''0'' \<or> hd s \<noteq> CHR ''0'') \<and> decimal_value s = n)"

section \<open>Concrete inputs\<close>

text \<open>Seventeen euro signs (U+20AC, three bytes each): 17 characters, 51 bytes.\<close>

definition euros17 :: string where
  "euros17 = concat (replicate 17 [CHR 0xE2, CHR 0x82, CHR 0xAC])"

text \<open>49 letters and one e-acute (U+00E9, two bytes): the bytes 49 and 50 are one character.\<close>

definition straddle51 :: string where
  "straddle51 = replicate 49 (CHR ''a'') @ [CHR 0xC3, CHR 0xA9]"

text \<open>Thoughts of exactly 50 and 51 ASCII bytes.\<close>

definition ascii50 :: string where
  "ascii50 = replicate 50 (CHR ''x'')"

definition ascii51 :: string where
  "ascii51 = replicate 51 (CHR ''x'')"

section \<open>Rejecting the empty thought\<close>

text \<open>
  C2. \<open>Think\<close> on the empty thought returns the error "no thoughts provided" (the
  spec's InvalidInput) and leaves the tool as it was, in every state; in particular
  the number of thoughts is the same.
\<close>

theorem Think_empty_rejected:
  "Think t now '''' = (Inl (errors_New ''no thoughts provided''), t)
   \<and> thoughts (snd (Think t now '''')) = thoughts t
   \<and> length (thoughts (snd (Think t now ''''))) = length (thoughts t)"
  by (simp add: Think_def)

section \<open>Appending a thought\<close>

text \<open>
  C1. For every non-empty thought \<open>s\<close>, \<open>Think\<close> succeeds, the slice of thoughts is one
  longer than before, and its new last item holds \<open>s\<close> itself (the echo of the
  acknowledgement may be cut, the stored thought is not).
\<close>

theorem Think_appends_one:
  assumes "s \<noteq> []"
  shows "\<not> isl (fst (Think t now s))
    \<and> length (thoughts (snd (Think t now s))) = length (thoughts t) + 1
    \<and> butlast (thoughts (snd (Think t now s))) = thoughts t
    \<and> Thought (last (thoughts (snd (Think t now s)))) = s"
  using assms by (simp add: Think_def)

theorem Think_appends_one_witness:
  "\<not> isl (fst (Think ThinkTool_zero ''2025-01-01T00:00:00Z'' ascii51))
   \<and> length (thoughts (snd (Think ThinkTool_zero ''2025-01-01T00:00:00Z'' ascii51))) = 1
   \<and> Thought (last (thoughts (snd (Think ThinkTool_zero ''2025-01-01T00:00:00Z'' ascii51)))) = ascii51"
proof -
  have ne: "ascii51 \<noteq> []"
    by (simp add: ascii51_def)
  show ?thesis
    using Think_appends_one [OF ne, of ThinkTool_zero "''2025-01-01T00:00:00Z''"]
    by (simp add: ThinkTool_zero_def)
qed

section \<open>The acknowledgement of Think\<close>

text \<open>
  C3, as the spec has it, counts characters. The code counts bytes: a thought of 17
  characters and 51 bytes is well formed, has no more than 50 characters, and is
  not echoed as it is; its echo is its first 50 bytes and the marker.
\<close>

theorem Think_echo_characters_counterexample:
  "utf8_ValidString euros17
   \<and> utf8_RuneCount euros17 = 17
   \<and> utf8_RuneCount euros17 \<le> 50
   \<and> fst (Think ThinkTool_zero ''2025-01-01T00:00:00Z'' euros17)
       = Inr [TextContent (''Thought: '' @ take 50 euros17 @ ''...'')]
   \<and> fst (Think ThinkTool_zero ''2025-01-01T00:00:00Z'' euros17)
       \<noteq> Inr [TextContent (''Thought: '' @ euros17)]"
  by code_simp

text \<open>
  C3, amended to bytes. For every non-empty thought \<open>s\<close>, \<open>Think\<close> returns the text
  "Thought: " followed by an echo of at most 53 bytes: \<open>s\<close> itself when \<open>s\<close> has at
  most 50 bytes, and otherwise the first 50 bytes of \<open>s\<close> followed by "..."; the
  stored item holds the whole of \<open>s\<close> in both cases.
\<close>

theorem Think_ack_bytes:
  assumes "s \<noteq> []"
  shows "fst (Think t now s) = Inr [TextContent (''Thought: '' @ tidyThought s)]
    \<and> length (tidyThought s) \<le> 53
    \<and> (length s \<le> 50 \<longrightarrow> tidyThought s = s)
    \<and> (50 < length s \<longrightarrow> tidyThought s = take 50 s @ ''...'')
    \<and> Thought (last (thoughts (snd (Think t now s)))) = s"
  using assms by (simp add: Think_def tidyThought_def)

theorem Think_ack_bytes_witness:
  "fst (Think ThinkTool_zero ''2025-01-01T00:00:00Z'' ascii50)
     = Inr [TextContent (''Thought: '' @ ascii50)]
   \<and> Thought (last (thoughts (snd (Think ThinkTool_zero ''2025-01-01T00:00:00Z'' ascii50))))
     = ascii50
   \<and> fst (Think ThinkTool_zero ''2025-01-01T00:00:00Z'' ascii51)
     = Inr [TextContent (''Thought: '' @ ascii50 @ ''...'')]
   \<and> Thought (last (thoughts (snd (Think ThinkTool_zero ''2025-01-01T00:00:00Z'' ascii51))))
     = ascii51"
proof -
  have ne50: "ascii50 \<noteq> []" and len50: "length ascii50 \<le> 50"
    by (simp_all add: ascii50_def)
  have ne51: "ascii51 \<noteq> []" and len51: "50 < length ascii51"
    by (simp_all add: ascii51_def)
  have cut: "take 50 ascii51 = ascii50"
    by (simp add: ascii50_def ascii51_def)
  from Think_ack_bytes [OF ne50, of ThinkTool_zero "''2025-01-01T00:00:00Z''"] len50
  have a: "fst (Think ThinkTool_zero ''2025-01-01T00:00:00Z'' ascii50)
        = Inr [TextContent (''Thought: '' @ ascii50)]
      \<and> Thought (last (thoughts (snd (Think ThinkTool_zero ''2025-01-01T00:00:00Z'' ascii50))))
        = ascii50"
    by simp
  from Think_ack_bytes [OF ne51, of ThinkTool_zero "''2025-01-01T00:00:00Z''"] len51 cut
  have b: "fst (Think ThinkTool_zero ''2025-01-01T00:00:00Z'' ascii51)
        = Inr [TextContent (''Thought: '' @ ascii50 @ ''...'')]
      \<and> Thought (last (thoughts (snd (Think ThinkTool_zero ''2025-01-01T00:00:00Z'' ascii51))))
        = ascii51"
    by simp
  from a b show ?thesis by simp
qed

section \<open>Listing the thoughts\<close>

text \<open>The loop of \<open>GetThoughts\<close> formats the item at index \<open>k\<close> with the number \<open>k + 1\<close>.\<close>

lemma range_thoughts_map:
  "range_thoughts i xs acc =
     acc @ map (\<lambda>k. Sprintf_thought (i + k + 1) (xs ! k)) [0..<length xs]"
proof (induction xs arbitrary: i acc)
  case Nil
  then show ?case by simp
next
  case (Cons x xs)
  have "[0..<length (x # xs)] = 0 # map Suc [0..<length xs]"
    by (simp add: upt_conv_Cons map_Suc_upt del: upt_Suc)
  then show ?case
    using Cons.IH [of "i + 1" "acc @ [Sprintf_thought (i + 1) x]"]
    by (simp add: comp_def)
qed

text \<open>A run of calls with non-empty thoughts appends one item per call, in the order of the calls.\<close>

lemma thoughts_Think_all:
  "\<forall>c \<in> set calls. snd c \<noteq> [] \<Longrightarrow>
   thoughts (Think_all t calls) =
     thoughts t @ map (\<lambda>c. \<lparr>Thought = snd c, CreatedAt = fst c\<rparr>) calls"
  by (induction t calls rule: Think_all.induct) (auto simp: Think_def)

text \<open>\<open>fmt_d\<close> writes the decimal numeral of its argument, and nothing else is one.\<close>

lemma decimal_value_snoc:
  "decimal_value (s @ [c]) = 10 * decimal_value s + ((of_char c :: nat) - 48)"
  by (simp add: decimal_value_def)

lemma fmt_d_not_Nil: "fmt_d n \<noteq> []"
  by (subst fmt_d.simps) simp

lemma of_char_digit: "d < 10 \<Longrightarrow> (of_char (char_of (48 + d :: nat)) :: nat) = 48 + d"
  by simp

lemma fmt_d_value: "decimal_value (fmt_d n) = n"
proof (induction n rule: fmt_d.induct)
  case (1 n)
  show ?case
  proof (cases "n < 10")
    case True
    then show ?thesis
      by (subst fmt_d.simps) (simp add: decimal_value_def)
  next
    case False
    then have "decimal_value (fmt_d (n div 10)) = n div 10"
      using "1.IH" by simp
    moreover have "(of_char (char_of (48 + n mod 10)) :: nat) = 48 + n mod 10"
      by (rule of_char_digit) simp
    ultimately show ?thesis
      using False by (subst fmt_d.simps) (simp add: decimal_value_snoc)
  qed
qed

lemma fmt_d_digits: "list_all is_digit (fmt_d n)"
proof (induction n rule: fmt_d.induct)
  case (1 n)
  have last: "is_digit (char_of (48 + n mod 10))"
    unfolding is_digit_def using of_char_digit [of "n mod 10"] by simp
  show ?case
  proof (cases "n < 10")
    case True
    then show ?thesis using last
      by (subst fmt_d.simps) simp
  next
    case False
    then show ?thesis using "1.IH" last
      by (subst fmt_d.simps) simp
  qed
qed

lemma decimal_value_zero: "decimal_value ''0'' = 0"
  by (simp add: decimal_value_def)

lemma fmt_d_no_leading_zero: "fmt_d n = ''0'' \<or> hd (fmt_d n) \<noteq> CHR ''0''"
proof (induction n rule: fmt_d.induct)
  case (1 n)
  show ?case
  proof (cases "n < 10")
    case True
    show ?thesis
    proof (cases "n = 0")
      case True
      have "fmt_d 0 = ''0''"
        by code_simp
      with True show ?thesis by simp
    next
      case False
      have code: "(of_char (char_of (48 + n)) :: nat) = 48 + n"
        using \<open>n < 10\<close> by (rule of_char_digit)
      have "char_of (48 + n) \<noteq> CHR ''0''"
      proof
        assume "char_of (48 + n) = CHR ''0''"
        then have "(of_char (char_of (48 + n)) :: nat) = of_char (CHR ''0'')"
          by (rule arg_cong)
        with code have "48 + n = (48 :: nat)"
          by simp
        with False show False
          by simp
      qed
      then show ?thesis using \<open>n < 10\<close>
        by (subst (1 2) fmt_d.simps) simp
    qed
  next
    case False
    then have "n div 10 \<noteq> 0" by simp
    then have "fmt_d (n div 10) \<noteq> ''0''"
      using fmt_d_value [of "n div 10"] decimal_value_zero by metis
    then have "hd (fmt_d (n div 10)) \<noteq> CHR ''0''"
      using "1.IH" False by simp
    then show ?thesis using False fmt_d_not_Nil [of "n div 10"]
      by (subst (1 2) fmt_d.simps) simp
  qed
qed

lemma fmt_d_decimal: "decimal_of n (fmt_d n)"
  unfolding decimal_of_def
  using fmt_d_not_Nil fmt_d_digits fmt_d_no_leading_zero fmt_d_value by blast

text \<open>
  \<open>strings_Join\<close> puts the separator in front of every element but the first and
  concatenates.
\<close>

lemma strings_Join_concat:
  "strings_Join (x # xs) sep = x @ concat (map (\<lambda>y. sep @ y) xs)"
  by (induction xs arbitrary: x) simp_all

lemma digit_char: "is_digit c \<Longrightarrow> c = char_of (48 + ((of_char c :: nat) - 48))"
  by (simp add: is_digit_def)

lemma decimal_value_zero_hd:
  "s \<noteq> [] \<Longrightarrow> list_all is_digit s \<Longrightarrow> decimal_value s = 0 \<Longrightarrow> hd s = CHR ''0''"
proof (induction s rule: rev_induct)
  case Nil
  then show ?case by simp
next
  case (snoc c s)
  from snoc.prems have v: "decimal_value s = 0" and d: "(of_char c :: nat) - 48 = 0"
    and dc: "is_digit c" and ds: "list_all is_digit s"
    by (simp_all add: decimal_value_snoc)
  show ?case
  proof (cases "s = []")
    case True
    from digit_char [OF dc] d have "c = char_of (48 :: nat)" by simp
    moreover have "char_of (48 :: nat) = CHR ''0''" by code_simp
    ultimately have "c = CHR ''0''" by simp
    with True show ?thesis by simp
  next
    case False
    with snoc.IH ds v show ?thesis by simp
  qed
qed

lemma decimal_of_fmt_d: "decimal_of n s \<Longrightarrow> s = fmt_d n"
proof (induction n arbitrary: s rule: fmt_d.induct)
  case (1 n)
  from "1.prems" have ne: "s \<noteq> []" and ds: "list_all is_digit s"
    and lead: "s = ''0'' \<or> hd s \<noteq> CHR ''0''" and val: "decimal_value s = n"
    by (simp_all add: decimal_of_def)
  from ne obtain xs c where s: "s = xs @ [c]"
    by (meson rev_exhaust)
  from ds s have dc: "is_digit c" and dxs: "list_all is_digit xs"
    by simp_all
  define d where "d = (of_char c :: nat) - 48"
  from dc have d10: "d < 10"
    by (auto simp: is_digit_def d_def)
  from digit_char [OF dc] have c: "c = char_of (48 + d)"
    by (simp add: d_def)
  from val s have n: "n = 10 * decimal_value xs + d"
    by (simp add: decimal_value_snoc d_def)
  show ?case
  proof (cases "n < 10")
    case True
    with n have v0: "decimal_value xs = 0" and dn: "d = n"
      by simp_all
    have "xs = []"
    proof (rule ccontr)
      assume xs: "xs \<noteq> []"
      then have "hd xs = CHR ''0''"
        using dxs v0 by (rule decimal_value_zero_hd)
      with xs s have "hd s = CHR ''0''" by simp
      moreover from xs s have "s \<noteq> ''0''" by auto
      ultimately show False using lead by simp
    qed
    with s c dn True show ?thesis
      by (subst fmt_d.simps) simp
  next
    case False
    from n d10 have q: "decimal_value xs = n div 10" and r: "d = n mod 10"
      by simp_all
    have xs: "xs \<noteq> []"
    proof
      assume "xs = []"
      then have "decimal_value xs = 0" by (simp add: decimal_value_def)
      with n d10 False show False by simp
    qed
    with s have "hd s = hd xs" and "s \<noteq> ''0''"
      by auto
    with lead have "hd xs \<noteq> CHR ''0''" by simp
    with xs dxs q have "decimal_of (n div 10) xs"
      by (simp add: decimal_of_def)
    with "1.IH" False have "xs = fmt_d (n div 10)" by simp
    with s c r False show ?thesis
      by (subst fmt_d.simps) simp
  qed
qed

lemma decimal_of_unique: "decimal_of n s \<Longrightarrow> decimal_of n s' \<Longrightarrow> s = s'"
  using decimal_of_fmt_d by blast

lemma strings_Join_upt:
  assumes "0 < n"
  shows "strings_Join (map f [0..<n]) sep =
    concat (map (\<lambda>k. (if k = 0 then [] else sep) @ f k) [0..<n])"
proof -
  have split: "[0..<n] = 0 # [Suc 0..<n]"
    using assms by (simp add: upt_conv_Cons)
  have rest: "map (\<lambda>k. (if k = 0 then [] else sep) @ f k) [Suc 0..<n] =
      map (\<lambda>y. sep @ y) (map f [Suc 0..<n])"
    by simp
  have "strings_Join (map f [0..<n]) sep = f 0 @ concat (map (\<lambda>y. sep @ y) (map f [Suc 0..<n]))"
    by (simp only: split list.map strings_Join_concat)
  also have "\<dots> = concat (map (\<lambda>k. (if k = 0 then [] else sep) @ f k) (0 # [Suc 0..<n]))"
    by (simp only: list.map concat.simps rest) simp
  finally show ?thesis
    by (simp only: split [symmetric])
qed

text \<open>
  C4. Start with no thoughts and make one or more \<open>Think\<close> calls with non-empty thoughts
  \<open>c1..cn\<close> (each call given as the pair of its timestamp and its thought). Then
  \<open>GetThoughts\<close> succeeds, and its text is the concatenation, in the order of the calls,
  of one paragraph for every call, with one newline between two paragraphs: the
  paragraph of the call at index \<open>k\<close> is "Thought #", the decimal numeral of \<open>k + 1\<close>,
  " at ", the timestamp, ":", a newline, the whole thought, a newline.
\<close>

theorem GetThoughts_lists_in_order:
  assumes "thoughts t = []" and "calls \<noteq> []" and "\<forall>c \<in> set calls. snd c \<noteq> []"
  shows "\<exists>idx. (\<forall>k < length calls. decimal_of (k + 1) (idx k))
    \<and> fst (GetThoughts (Think_all t calls)) =
      Inr [TextContent (concat
        (map (\<lambda>k. (if k = 0 then [] else [CHR 0x0A])
                  @ ''Thought #'' @ idx k @ '' at '' @ fst (calls ! k) @ '':'' @ [CHR 0x0A]
                  @ snd (calls ! k) @ [CHR 0x0A])
             [0..<length calls]))]"
proof -
  have th: "thoughts (Think_all t calls) =
      map (\<lambda>c. \<lparr>Thought = snd c, CreatedAt = fst c\<rparr>) calls"
    using thoughts_Think_all [OF assms(3), of t] assms(1) by simp
  have ne: "length (thoughts (Think_all t calls)) \<noteq> 0"
    using assms(2) by (simp add: th)
  have pos: "0 < length calls"
    using assms(2) by simp
  have loop: "range_thoughts 0 (thoughts (Think_all t calls)) [] =
      map (\<lambda>k. ''Thought #'' @ fmt_d (k + 1) @ '' at '' @ fst (calls ! k) @ '':'' @ [CHR 0x0A]
                  @ snd (calls ! k) @ [CHR 0x0A])
          [0..<length calls]"
    by (simp add: range_thoughts_map th Sprintf_thought_def)
  have "fst (GetThoughts (Think_all t calls)) =
      Inr [TextContent (concat
        (map (\<lambda>k. (if k = 0 then [] else [CHR 0x0A])
                  @ ''Thought #'' @ fmt_d (k + 1) @ '' at '' @ fst (calls ! k) @ '':'' @ [CHR 0x0A]
                  @ snd (calls ! k) @ [CHR 0x0A])
             [0..<length calls]))]"
    using ne by (simp only: GetThoughts_def loop strings_Join_upt [OF pos]) simp
  moreover have "\<forall>k < length calls. decimal_of (k + 1) (fmt_d (k + 1))"
    by (simp add: fmt_d_decimal)
  ultimately show ?thesis
    by (intro exI [of _ "\<lambda>k. fmt_d (k + 1)"]) simp
qed

theorem GetThoughts_lists_in_order_witness:
  "fst (GetThoughts (Think_all ThinkTool_zero
      [(''2025-01-01T00:00:00Z'', ''first''), (''2025-01-01T00:00:05Z'', ''second'')])) =
   Inr [TextContent (''Thought #1 at 2025-01-01T00:00:00Z:'' @ [CHR 0x0A] @ ''first'' @ [CHR 0x0A]
      @ [CHR 0x0A]
      @ ''Thought #2 at 2025-01-01T00:00:05Z:'' @ [CHR 0x0A] @ ''second'' @ [CHR 0x0A])]"
proof -
  let ?calls = "[(''2025-01-01T00:00:00Z'', ''first''), (''2025-01-01T00:00:05Z'', ''second'')]"
  have "\<exists>idx. (\<forall>k < length ?calls. decimal_of (k + 1) (idx k))
    \<and> fst (GetThoughts (Think_all ThinkTool_zero ?calls)) =
      Inr [TextContent (concat
        (map (\<lambda>k. (if k = 0 then [] else [CHR 0x0A])
                  @ ''Thought #'' @ idx k @ '' at '' @ fst (?calls ! k) @ '':'' @ [CHR 0x0A]
                  @ snd (?calls ! k) @ [CHR 0x0A])
             [0..<length ?calls]))]"
    by (rule GetThoughts_lists_in_order) (simp_all add: ThinkTool_zero_def)
  then obtain idx where dec: "\<forall>k < length ?calls. decimal_of (k + 1) (idx k)"
    and run: "fst (GetThoughts (Think_all ThinkTool_zero ?calls)) =
      Inr [TextContent (concat
        (map (\<lambda>k. (if k = 0 then [] else [CHR 0x0A])
                  @ ''Thought #'' @ idx k @ '' at '' @ fst (?calls ! k) @ '':'' @ [CHR 0x0A]
                  @ snd (?calls ! k) @ [CHR 0x0A])
             [0..<length ?calls]))]"
    by blast
  from dec have d0: "decimal_of (0 + 1) (idx 0)" and d1: "decimal_of (Suc 0 + 1) (idx (Suc 0))"
    by simp_all
  have f0: "fmt_d (0 + 1) = ''1''" and f1: "fmt_d (Suc 0 + 1) = ''2''"
    by code_simp+
  have i0: "idx 0 = ''1''"
    using decimal_of_fmt_d [OF d0] f0 by simp
  have i1: "idx (Suc 0) = ''2''"
    using decimal_of_fmt_d [OF d1] f1 by simp
  have up: "[0..<length ?calls] = [0, Suc 0]"
    by (simp add: upt_conv_Cons)
  show ?thesis
    unfolding run up by (simp add: i0 i1)
qed

text \<open>
  C5. \<open>GetThoughts\<close> fails exactly when there are no thoughts, and then with the error
  that tells the caller to record a thought first (the spec's EmptyState); the tool
  as \<open>main\<close> creates it is such a state. With at least one thought it succeeds.
\<close>

theorem GetThoughts_fails_iff_empty:
  "isl (fst (GetThoughts t)) = (thoughts t = [])
   \<and> (fst (GetThoughts t) = Inl (errors_New
         ''no thoughts recorded. Use the think tool to record a thought first.''))
       = (thoughts t = [])
   \<and> (\<exists>r. fst (GetThoughts t) = Inr r) = (thoughts t \<noteq> [])
   \<and> fst (GetThoughts ThinkTool_zero) = Inl (errors_New
         ''no thoughts recorded. Use the think tool to record a thought first.'')"
  by (simp add: GetThoughts_def ThinkTool_zero_def)

text \<open>
  C7. \<open>GetThoughts\<close> returns the tool as it received it, whether it fails or succeeds:
  the thoughts, and with them the whole state, are those before the call.
\<close>

theorem GetThoughts_read_only:
  "snd (GetThoughts t) = t \<and> thoughts (snd (GetThoughts t)) = thoughts t"
  by (simp add: GetThoughts_def)

section \<open>Clearing the thoughts\<close>

text \<open>
  C6. \<open>ClearThoughts\<close> succeeds in every state with the text "Thoughts cleared." and
  leaves no thoughts. A second call right after the first succeeds with the same
  text and changes nothing: clearing a tool that has no thoughts returns it as it is,
  with zero thoughts.
\<close>

theorem ClearThoughts_total_idempotent:
  "fst (ClearThoughts t) = Inr [TextContent ''Thoughts cleared.'']
   \<and> thoughts (snd (ClearThoughts t)) = []
   \<and> ClearThoughts (snd (ClearThoughts t))
       = (Inr [TextContent ''Thoughts cleared.''], snd (ClearThoughts t))
   \<and> length (thoughts (snd (ClearThoughts (snd (ClearThoughts t))))) = 0
   \<and> snd (ClearThoughts (t\<lparr>thoughts := []\<rparr>)) = t\<lparr>thoughts := []\<rparr>"
  by (simp add: ClearThoughts_def)

section \<open>Where the echo is cut\<close>

lemma utf8_lead_cont_ranges: "utf8_lead c = Some p \<Longrightarrow> cont_ranges p"
  by (auto simp: utf8_lead_def cont_ranges_def Let_def split: if_splits)

lemma utf8_lead_cont: "utf8_cont c \<Longrightarrow> utf8_lead c = None"
  by (auto simp: utf8_lead_def utf8_cont_def Let_def)

text \<open>
  When a scan passes over \<open>xs\<close> and then meets a continuation byte, a character is
  open at the end of \<open>xs\<close>: the scan of \<open>xs\<close> followed by any other kind of byte fails.
\<close>

lemma utf8_scan_cut:
  "cont_ranges p \<Longrightarrow> utf8_scan p (xs @ c # ys) \<Longrightarrow> utf8_cont c \<Longrightarrow> \<not> utf8_cont d \<Longrightarrow>
   \<not> utf8_scan p (xs @ d # zs)"
proof (induction p xs rule: utf8_scan.induct)
  case (1 pending)
  then show ?case
    by (cases pending) (auto simp: utf8_lead_cont utf8_cont_def cont_ranges_def)
next
  case (2 b bs)
  then show ?case
    by (auto split: option.splits dest: utf8_lead_cont_ranges simp: cont_ranges_def)
next
  case (3 lo hi p b bs)
  then show ?case
    by (auto simp: cont_ranges_def)
qed

lemma tidyThought_not_valid:
  assumes "50 < length s" and "utf8_ValidString s" and "utf8_cont (s ! 50)"
  shows "\<not> utf8_ValidString (tidyThought s)"
proof -
  have "s = take 50 s @ s ! 50 # drop (Suc 50) s"
    using assms(1) by (rule id_take_nth_drop)
  then have "utf8_scan [] (take 50 s @ s ! 50 # drop (Suc 50) s)"
    using assms(2) by (simp add: utf8_ValidString_def)
  moreover have "cont_ranges []"
    by (simp add: cont_ranges_def)
  moreover have "\<not> utf8_cont (CHR ''.'')"
    by (simp add: utf8_cont_def)
  ultimately have "\<not> utf8_scan [] (take 50 s @ CHR ''.'' # ''..'')"
    using assms(3) utf8_scan_cut by blast
  then show ?thesis
    using assms(1) by (simp add: tidyThought_def utf8_ValidString_def)
qed

text \<open>
  C9. The echo is cut by bytes. For every thought of more than 50 bytes the echo is
  its first 50 bytes followed by "...". So when the thought is well-formed UTF-8 and
  a character lies across the boundary (the byte at index 50 is a continuation
  byte), the echo holds only the first bytes of that character and is not
  well-formed UTF-8 any more. The stored thought is the whole input.
\<close>

theorem tidyThought_cuts_bytes:
  assumes "50 < length thought"
  shows "tidyThought thought = take 50 thought @ ''...''
    \<and> fst (Think t now thought) = Inr [TextContent (''Thought: '' @ take 50 thought @ ''...'')]
    \<and> (utf8_ValidString thought \<and> utf8_cont (thought ! 50)
         \<longrightarrow> \<not> utf8_ValidString (tidyThought thought))
    \<and> Thought (last (thoughts (snd (Think t now thought)))) = thought"
proof -
  have ne: "length thought \<noteq> 0"
    using assms by auto
  have cut: "tidyThought thought = take 50 thought @ ''...''"
    using assms by (simp add: tidyThought_def)
  have ack: "fst (Think t now thought) =
      Inr [TextContent (''Thought: '' @ take 50 thought @ ''...'')]"
    using ne cut by (simp add: Think_def)
  have stored: "Thought (last (thoughts (snd (Think t now thought)))) = thought"
    using ne by (simp add: Think_def)
  from cut ack stored tidyThought_not_valid [OF assms] show ?thesis
    by blast
qed

theorem tidyThought_cuts_bytes_witness:
  "50 < length straddle51
   \<and> utf8_ValidString straddle51
   \<and> utf8_cont (straddle51 ! 50)
   \<and> tidyThought straddle51 = replicate 49 (CHR ''a'') @ [CHR 0xC3] @ ''...''
   \<and> \<not> utf8_ValidString (tidyThought straddle51)
   \<and> Thought (last (thoughts (snd (Think ThinkTool_zero ''2025-01-01T00:00:00Z'' straddle51))))
       = straddle51"
proof -
  have len: "50 < length straddle51"
    by (simp add: straddle51_def)
  have valid: "utf8_ValidString straddle51"
    by code_simp
  have cont: "utf8_cont (straddle51 ! 50)"
    by code_simp
  have cut: "take 50 straddle51 = replicate 49 (CHR ''a'') @ [CHR 0xC3]"
    by (simp add: straddle51_def)
  note inst = tidyThought_cuts_bytes [OF len, of ThinkTool_zero "''2025-01-01T00:00:00Z''"]
  from inst have echo: "tidyThought straddle51 = take 50 straddle51 @ ''...''"
    by blast
  from inst valid cont have broken: "\<not> utf8_ValidString (tidyThought straddle51)"
    by blast
  from inst have stored:
    "Thought (last (thoughts (snd (Think ThinkTool_zero ''2025-01-01T00:00:00Z'' straddle51))))
       = straddle51"
    by blast
  from echo cut have echo': "tidyThought straddle51 = replicate 49 (CHR ''a'') @ [CHR 0xC3] @ ''...''"
    by simp
  from len valid cont echo' broken stored show ?thesis
    by blast
qed

section \<open>No trimming\<close>

text \<open>
  C10. \<open>Think\<close> fails on the empty thought and on no other: every thought of at least
  one byte is accepted, and the item appended holds it byte for byte, without
  trimming, also when it is made of white space only.
\<close>

theorem Think_no_trimming:
  "isl (fst (Think t now s)) = (s = [])
   \<and> thoughts (snd (Think t now s)) =
       (if s = [] then thoughts t else thoughts t @ [\<lparr>Thought = s, CreatedAt = now\<rparr>])"
  by (simp add: Think_def)

theorem Think_no_trimming_witness:
  "\<not> isl (fst (Think ThinkTool_zero ''2025-01-01T00:00:00Z'' [CHR '' '', CHR 0x09, CHR 0x0A, CHR '' '']))
   \<and> thoughts (snd (Think ThinkTool_zero ''2025-01-01T00:00:00Z''
         [CHR '' '', CHR 0x09, CHR 0x0A, CHR '' ''])) =
       [\<lparr>Thought = [CHR '' '', CHR 0x09, CHR 0x0A, CHR '' ''],
         CreatedAt = ''2025-01-01T00:00:00Z''\<rparr>]"
  using Think_no_trimming [of ThinkTool_zero "''2025-01-01T00:00:00Z''"
      "[CHR '' '', CHR 0x09, CHR 0x0A, CHR '' '']"]
  by (simp add: ThinkTool_zero_def)

end
